theory Spec2Isabelle
  imports Main
begin

section \<open>The IR core the Stream canonicalization patterns work on\<close>

text \<open>
  The patterns of \<^verbatim>\<open>StreamOpFolders.cpp\<close> are written against MLIR's
  \<^verbatim>\<open>Operation\<close>, \<^verbatim>\<open>Value\<close> and \<^verbatim>\<open>Block\<close>.
  The embedding keeps what the patterns read and write.

  \<^item> An SSA value is the result of an operation (the operation's identity and the result
    number) or a block argument.
  \<^item> An operation has an identity (the C++ pointer), a name (what \<^verbatim>\<open>isa<>\<close> and
    \<^verbatim>\<open>dyn_cast<>\<close> test), its operands in the operand groups the op declares, its
    result types, the \<^verbatim>\<open>tied_operands\<close> of the tied-operand interface (one entry
    per result), its affinity attribute and the block it is in
    (\<^verbatim>\<open>Operation::getBlock\<close>).
  \<^item> The IR is the sequence of all operations in walk order. The operations of one block
    are those that carry its number, in the order of the sequence.
\<close>

type_synonym opid = nat
type_synonym blockid = nat
type_synonym affinityAttr = string

datatype val = OpResult opid nat | BlockArgument blockid nat

datatype lifetime = Unknown | External | Staging | Transient | Constant

datatype ty = ResourceType lifetime | TimepointType | IndexType | ScalarType

datatype opname =
    ConstantOp int
  | ResourceSubviewOp
  | TensorCloneOp
  | AsyncConstantOp
  | AsyncSplatOp
  | AsyncCloneOp
  | AsyncSliceOp
  | AsyncUpdateOp
  | AsyncCopyOp
  | AsyncDispatchOp
  | AsyncExecuteOp
  | CmdExecuteOp
  | TimepointImmediateOp
  | TimepointJoinOp
  | TimepointAwaitOp
  | TensorExportOp
  | CondBranchOp
  | ReturnOp

record operation =
  ident :: opid
  opname :: opname
  operandGroups :: "val list list"
  resultTypes :: "ty list"
  tiedOperands :: "nat option list"
  affinity :: "affinityAttr option"
  parentBlock :: blockid

type_synonym ir = "operation list"

text \<open>\<^verbatim>\<open>op->getOperands()\<close>: the operand groups one after the other.\<close>

definition getOperands :: "operation \<Rightarrow> val list" where
  "getOperands op = concat (operandGroups op)"

text \<open>\<^verbatim>\<open>op->getResults()\<close>.\<close>

definition getResults :: "operation \<Rightarrow> val list" where
  "getResults op = map (OpResult (ident op)) [0..<length (resultTypes op)]"

text \<open>The operation a pointer refers to.\<close>

definition lookupOp :: "ir \<Rightarrow> opid \<Rightarrow> operation option" where
  "lookupOp m i = find (\<lambda>op. ident op = i) m"

text \<open>\<^verbatim>\<open>value.getDefiningOp()\<close>: null for a block argument.\<close>

fun getDefiningOp :: "ir \<Rightarrow> val \<Rightarrow> operation option" where
  "getDefiningOp m (OpResult i k) = lookupOp m i"
| "getDefiningOp m (BlockArgument b k) = None"

text \<open>\<^verbatim>\<open>dyn_cast_or_null<Op>(value.getDefiningOp())\<close>.\<close>

definition definingOpOfKind :: "ir \<Rightarrow> opname \<Rightarrow> val \<Rightarrow> operation option" where
  "definingOpOfKind m k v =
     (case getDefiningOp m v of
        None \<Rightarrow> None
      | Some d \<Rightarrow> if opname d = k then Some d else None)"

text \<open>
  \<^verbatim>\<open>value.getUses()\<close>: every operand slot that holds the value, as the owner and
  the operand number, in the order of MLIR's use list. An operand is linked at the head
  of the use list of its value when it is set, so the list runs from the newest use to
  the oldest. The IR is taken as built in walk order, each op with its operands set from
  the first to the last: \<open>usesIn\<close> lists the uses of one op by operand number, and
  \<open>getUses\<close> is the reverse of their concatenation over the walk, the last operand
  of the last user first.
\<close>

definition usesIn :: "val \<Rightarrow> operation \<Rightarrow> (operation \<times> nat) list" where
  "usesIn v op =
     map (\<lambda>i. (op, i)) (filter (\<lambda>i. getOperands op ! i = v) [0..<length (getOperands op)])"

definition getUses :: "ir \<Rightarrow> val \<Rightarrow> (operation \<times> nat) list" where
  "getUses m v = rev (concat (map (usesIn v) m))"

text \<open>
  Modelled from the spec: the tied-operand interface \<^verbatim>\<open>IREE::Util::TiedOpInterface\<close>
  (\<^verbatim>\<open>isOperandTied\<close>, \<^verbatim>\<open>hasAnyTiedUses\<close>) is not in
  \<^verbatim>\<open>StreamOpFolders.cpp\<close>. The spec: an operation may declare a tie from a
  result index to an operand index; a use is tied when the consumer marks this operand as
  a tied input. \<open>tiedOperands\<close> holds, per result, the operand it is tied to.
\<close>

definition isOperandTied :: "operation \<Rightarrow> nat \<Rightarrow> bool" where
  "isOperandTied op i = (Some i \<in> set (tiedOperands op))"

definition hasAnyTiedUses :: "ir \<Rightarrow> val \<Rightarrow> bool" where
  "hasAnyTiedUses m v = list_ex (\<lambda>(u, i). isOperandTied u i) (getUses m v)"

text \<open>The rewriter: operand replacement, erasure, creation at an insertion point.\<close>

definition mapOperands :: "(val \<Rightarrow> val) \<Rightarrow> operation \<Rightarrow> operation" where
  "mapOperands f op = op\<lparr>operandGroups := map (map f) (operandGroups op)\<rparr>"

definition replaceAllUsesWith :: "val \<Rightarrow> val \<Rightarrow> ir \<Rightarrow> ir" where
  "replaceAllUsesWith old new m = map (mapOperands (\<lambda>v. if v = old then new else v)) m"

definition eraseOp :: "opid \<Rightarrow> ir \<Rightarrow> ir" where
  "eraseOp i m = filter (\<lambda>op. ident op \<noteq> i) m"

fun insertBefore :: "opid \<Rightarrow> operation \<Rightarrow> ir \<Rightarrow> ir" where
  "insertBefore t n [] = []"
| "insertBefore t n (op # rest) =
     (if ident op = t then n # op # rest else op # insertBefore t n rest)"

text \<open>A new operation gets an identity no operation of the IR has.\<close>

definition freshId :: "ir \<Rightarrow> opid" where
  "freshId m = Suc (fold max (map ident m) 0)"

text \<open>
  \<^verbatim>\<open>rewriter.replaceOp(op, values)\<close>: every use of result \<open>k\<close> takes the
  \<open>k\<close>-th value, then the op is erased.
\<close>

definition replaceOp :: "ir \<Rightarrow> operation \<Rightarrow> val list \<Rightarrow> ir" where
  "replaceOp m op vs =
     eraseOp (ident op)
       (fold (\<lambda>(old, new). replaceAllUsesWith old new) (zip (getResults op) vs) m)"

text \<open>
  \<^verbatim>\<open>rewriter.replaceOpWithNewOp<T>(op, ...)\<close>: the new op is created at the
  insertion point, which the pattern driver puts at the matched op, and its results
  replace the old results.
\<close>

definition replaceOpWithNewOp :: "ir \<Rightarrow> operation \<Rightarrow> operation \<Rightarrow> ir" where
  "replaceOpWithNewOp m op new =
     replaceOp (insertBefore (ident op) (new\<lparr>parentBlock := parentBlock op\<rparr>) m) op
       (getResults new)"



section \<open>Folds of \<^verbatim>\<open>stream.resource.subview\<close> and \<^verbatim>\<open>stream.async.slice\<close>\<close>

text \<open>
  The operands of the two ops, in the order their builders take them in the source:
  \<^verbatim>\<open>ResourceSubviewOp(source, source_size, source_offset, result_size)\<close> and
  \<^verbatim>\<open>AsyncSliceOp(source, source_size, source_offset, source_end, result_size)\<close>.
\<close>

definition subview_source :: "operation \<Rightarrow> val" where
  "subview_source op = getOperands op ! 0"
definition subview_source_size :: "operation \<Rightarrow> val" where
  "subview_source_size op = getOperands op ! 1"
definition subview_source_offset :: "operation \<Rightarrow> val" where
  "subview_source_offset op = getOperands op ! 2"
definition subview_result_size :: "operation \<Rightarrow> val" where
  "subview_result_size op = getOperands op ! 3"

definition slice_source :: "operation \<Rightarrow> val" where
  "slice_source op = getOperands op ! 0"
definition slice_source_size :: "operation \<Rightarrow> val" where
  "slice_source_size op = getOperands op ! 1"
definition slice_source_offset :: "operation \<Rightarrow> val" where
  "slice_source_offset op = getOperands op ! 2"
definition slice_result_size :: "operation \<Rightarrow> val" where
  "slice_result_size op = getOperands op ! 4"

text \<open>
  \<^verbatim>\<open>ResourceSubviewOp::fold\<close> and \<^verbatim>\<open>AsyncSliceOp::fold\<close>: the value the op
  folds to, or \<open>None\<close> for the empty fold result. The comparison is the identity of two
  SSA values.
\<close>

definition ResourceSubviewOp_fold :: "operation \<Rightarrow> val option" where
  "ResourceSubviewOp_fold op =
     (if subview_source_size op = subview_result_size op then Some (subview_source op)
      else None)"

definition AsyncSliceOp_fold :: "operation \<Rightarrow> val option" where
  "AsyncSliceOp_fold op =
     (if slice_source_size op = slice_result_size op then Some (slice_source op)
      else None)"

text \<open>The integer an index value is known to hold: the attribute of its defining constant.\<close>

definition constantValue :: "ir \<Rightarrow> val \<Rightarrow> int option" where
  "constantValue m v =
     (case getDefiningOp m v of
        Some d \<Rightarrow> (case opname d of ConstantOp n \<Rightarrow> Some n | _ \<Rightarrow> None)
      | None \<Rightarrow> None)"

definition mkSubview :: "opid \<Rightarrow> val \<Rightarrow> val \<Rightarrow> val \<Rightarrow> val \<Rightarrow> operation" where
  "mkSubview i src srcSize srcOffset resSize =
     \<lparr>ident = i, opname = ResourceSubviewOp,
      operandGroups = [[src], [srcSize], [srcOffset], [resSize]],
      resultTypes = [ResourceType Unknown], tiedOperands = [None], affinity = None,
      parentBlock = 0\<rparr>"

definition mkSlice ::
  "opid \<Rightarrow> val \<Rightarrow> val \<Rightarrow> val \<Rightarrow> val \<Rightarrow> val \<Rightarrow> affinityAttr option \<Rightarrow> operation" where
  "mkSlice i src srcSize srcOffset srcEnd resSize aff =
     \<lparr>ident = i, opname = AsyncSliceOp,
      operandGroups = [[src], [srcSize], [srcOffset], [srcEnd], [resSize]],
      resultTypes = [ResourceType Unknown], tiedOperands = [None], affinity = aff,
      parentBlock = 0\<rparr>"

definition mkConstant :: "opid \<Rightarrow> int \<Rightarrow> operation" where
  "mkConstant i n =
     \<lparr>ident = i, opname = ConstantOp n, operandGroups = [], resultTypes = [IndexType],
      tiedOperands = [None], affinity = None, parentBlock = 0\<rparr>"

section \<open>\<^verbatim>\<open>stream.async.update\<close> and \<^verbatim>\<open>stream.async.copy\<close>\<close>


definition copy_target :: "operation \<Rightarrow> val" where
  "copy_target op = getOperands op ! 0"
definition copy_target_size :: "operation \<Rightarrow> val" where
  "copy_target_size op = getOperands op ! 1"
definition copy_target_offset :: "operation \<Rightarrow> val" where
  "copy_target_offset op = getOperands op ! 2"
definition copy_target_end :: "operation \<Rightarrow> val" where
  "copy_target_end op = getOperands op ! 3"
definition copy_source :: "operation \<Rightarrow> val" where
  "copy_source op = getOperands op ! 4"
definition copy_source_size :: "operation \<Rightarrow> val" where
  "copy_source_size op = getOperands op ! 5"
definition copy_source_offset :: "operation \<Rightarrow> val" where
  "copy_source_offset op = getOperands op ! 6"
definition copy_source_end :: "operation \<Rightarrow> val" where
  "copy_source_end op = getOperands op ! 7"
definition copy_length :: "operation \<Rightarrow> val" where
  "copy_length op = getOperands op ! 8"

definition mkUpdate ::
  "opid \<Rightarrow> ty list \<Rightarrow> val \<Rightarrow> val \<Rightarrow> val \<Rightarrow> val \<Rightarrow> val \<Rightarrow> val \<Rightarrow> nat option list \<Rightarrow>
   affinityAttr option \<Rightarrow> operation" where
  "mkUpdate i tys tgt tgtSize tgtOffset tgtEnd upd updSize tied aff =
     \<lparr>ident = i, opname = AsyncUpdateOp,
      operandGroups = [[tgt], [tgtSize], [tgtOffset], [tgtEnd], [upd], [updSize]],
      resultTypes = tys, tiedOperands = tied, affinity = aff, parentBlock = 0\<rparr>"

definition mkCopy ::
  "opid \<Rightarrow> ty list \<Rightarrow> val \<Rightarrow> val \<Rightarrow> val \<Rightarrow> val \<Rightarrow> val \<Rightarrow> val \<Rightarrow> val \<Rightarrow> val \<Rightarrow> val \<Rightarrow>
   nat option list \<Rightarrow> affinityAttr option \<Rightarrow> operation" where
  "mkCopy i tys tgt tgtSize tgtOffset tgtEnd src srcSize srcOffset srcEnd len tied aff =
     \<lparr>ident = i, opname = AsyncCopyOp,
      operandGroups = [[tgt], [tgtSize], [tgtOffset], [tgtEnd], [src], [srcSize],
        [srcOffset], [srcEnd], [len]],
      resultTypes = tys, tiedOperands = tied, affinity = aff, parentBlock = 0\<rparr>"



text \<open>\<^verbatim>\<open>AsyncCopyFullSourceToUpdate\<close>.\<close>

definition AsyncCopyFullSourceToUpdate :: "ir \<Rightarrow> operation \<Rightarrow> ir option" where
  "AsyncCopyFullSourceToUpdate m copyOp =
     (if copy_source_end copyOp = copy_source_size copyOp then
        Some (replaceOpWithNewOp m copyOp
          (mkUpdate (freshId m) (resultTypes copyOp)
             (copy_target copyOp) (copy_target_size copyOp)
             (copy_target_offset copyOp) (copy_target_end copyOp)
             (copy_source copyOp) (copy_source_size copyOp)
             (tiedOperands copyOp) (affinity copyOp)))
      else None)"

section \<open>\<^verbatim>\<open>stream.tensor.clone\<close> and \<^verbatim>\<open>stream.async.clone\<close>\<close>

text \<open>The source is the first operand of either clone op; each has one result.\<close>

definition clone_source :: "operation \<Rightarrow> val" where
  "clone_source op = getOperands op ! 0"

definition clone_result :: "operation \<Rightarrow> val" where
  "clone_result op = OpResult (ident op) 0"

text \<open>
  \<^verbatim>\<open>TensorCloneOp::fold\<close>, which the driver tries before the patterns: the
  clone folds to its source when its result has exactly one user.
\<close>

definition TensorCloneOp_fold :: "ir \<Rightarrow> operation \<Rightarrow> val option" where
  "TensorCloneOp_fold m op =
     (if length (getUses m (clone_result op)) = 1 then Some (clone_source op) else None)"

text \<open>\<^verbatim>\<open>ElideUnneededTensorClones\<close> and its sibling \<^verbatim>\<open>ElideUnneededAsyncClones\<close>.\<close>

definition ElideUnneededTensorClones :: "ir \<Rightarrow> operation \<Rightarrow> ir option" where
  "ElideUnneededTensorClones m cloneOp =
     (if \<not> hasAnyTiedUses m (clone_result cloneOp) then
        Some (replaceOp m cloneOp [clone_source cloneOp])
      else None)"

definition ElideUnneededAsyncClones :: "ir \<Rightarrow> operation \<Rightarrow> ir option" where
  "ElideUnneededAsyncClones m cloneOp =
     (if \<not> hasAnyTiedUses m (clone_result cloneOp) \<and>
         \<not> hasAnyTiedUses m (clone_source cloneOp) then
        Some (replaceOp m cloneOp [clone_source cloneOp])
      else None)"

section \<open>\<^verbatim>\<open>stream.async.execute\<close> and \<^verbatim>\<open>stream.cmd.execute\<close>\<close>

text \<open>
  The operand groups of the two region ops:
  \<^verbatim>\<open>AsyncExecuteOp(operands, operand_sizes, result_sizes, await_timepoints)\<close> and
  \<^verbatim>\<open>CmdExecuteOp(operands, operand_sizes, await_timepoints)\<close>. The patterns of the
  two ops are the same text in the source, so one definition serves both.
\<close>

definition awaitGroup :: "operation \<Rightarrow> nat" where
  "awaitGroup op = (if opname op = AsyncExecuteOp then 3 else 2)"

definition execute_operands :: "operation \<Rightarrow> val list" where
  "execute_operands op = operandGroups op ! 0"

definition await_timepoints :: "operation \<Rightarrow> val list" where
  "await_timepoints op = operandGroups op ! awaitGroup op"

definition assign_execute_operands :: "val list \<Rightarrow> operation \<Rightarrow> operation" where
  "assign_execute_operands vs op = op\<lparr>operandGroups := (operandGroups op)[0 := vs]\<rparr>"

definition assign_await_timepoints :: "val list \<Rightarrow> operation \<Rightarrow> operation" where
  "assign_await_timepoints vs op =
     op\<lparr>operandGroups := (operandGroups op)[awaitGroup op := vs]\<rparr>"

text \<open>\<^verbatim>\<open>isa_and_nonnull<TimepointImmediateOp>(value.getDefiningOp())\<close>.\<close>

definition isImmediate :: "ir \<Rightarrow> val \<Rightarrow> bool" where
  "isImmediate m v =
     (case getDefiningOp m v of
        None \<Rightarrow> False
      | Some d \<Rightarrow> opname d = TimepointImmediateOp)"

text \<open>\<^verbatim>\<open>MutableOperandRange::erase(idx)\<close>.\<close>

definition eraseAt :: "nat \<Rightarrow> 'a list \<Rightarrow> 'a list" where
  "eraseAt idx xs = take idx xs @ drop (Suc idx) xs"

text \<open>
  \<^verbatim>\<open>ElideImmediateAsyncExecuteWaits\<close> / \<^verbatim>\<open>ElideImmediateCmdExecuteWaits\<close>:
  the indices of the immediate timepoints are collected, then erased from the last to
  the first. The pattern returns the op updated in place, or \<open>None\<close> for failure.
\<close>

definition elidedTimepoints :: "ir \<Rightarrow> val list \<Rightarrow> nat list" where
  "elidedTimepoints m ts = filter (\<lambda>i. isImmediate m (ts ! i)) [0..<length ts]"

definition ElideImmediateExecuteWaits :: "ir \<Rightarrow> operation \<Rightarrow> operation option" where
  "ElideImmediateExecuteWaits m op =
     (let elided = elidedTimepoints m (await_timepoints op) in
      if elided = [] then None
      else Some (assign_await_timepoints
                   (fold eraseAt (rev elided) (await_timepoints op)) op))"

text \<open>
  \<^verbatim>\<open>SetVector::insert\<close> keeps the first of equal elements, in insertion order.
  \<^verbatim>\<open>ElideDuplicateAsyncExecuteWaits\<close> / \<^verbatim>\<open>ElideDuplicateCmdExecuteWaits\<close>.
\<close>

definition setVectorInsert :: "'a \<Rightarrow> 'a list \<Rightarrow> 'a list" where
  "setVectorInsert x vec = (if x \<in> set vec then vec else vec @ [x])"

definition ElideDuplicateExecuteWaits :: "operation \<Rightarrow> operation option" where
  "ElideDuplicateExecuteWaits op =
     (let uniqueTimepoints = fold setVectorInsert (await_timepoints op) [] in
      if length uniqueTimepoints = length (await_timepoints op) then None
      else Some (assign_await_timepoints uniqueTimepoints op))"

text \<open>
  What the pattern driver does with one pattern on one op: a pattern that fails leaves
  the op as it is.
\<close>

definition applyPattern :: "(operation \<Rightarrow> operation option) \<Rightarrow> operation \<Rightarrow> operation" where
  "applyPattern p op = (case p op of None \<Rightarrow> op | Some op' \<Rightarrow> op')"

section \<open>\<^verbatim>\<open>stream.timepoint.await\<close>\<close>

text \<open>
  The operand groups of the op, in the order its builder takes them in the source:
  \<^verbatim>\<open>TimepointAwaitOp(operands, operand_sizes, timepoint)\<close>.
\<close>

definition await_operands :: "operation \<Rightarrow> val list" where
  "await_operands op = operandGroups op ! 0"

definition await_operand_sizes :: "operation \<Rightarrow> val list" where
  "await_operand_sizes op = operandGroups op ! 1"

definition await_timepoint :: "operation \<Rightarrow> val" where
  "await_timepoint op = hd (operandGroups op ! 2)"

text \<open>
  Modelled from the spec: the declaration and the builder of the await op are not in
  \<^verbatim>\<open>StreamOpFolders.cpp\<close>. The spec: an await blocks a set of resources on a
  timepoint and yields them post-satisfaction, tied. So an await has one result per
  awaited resource, and result \<open>k\<close> is tied to resource operand \<open>k\<close>.
\<close>

definition mkAwait ::
  "opid \<Rightarrow> ty list \<Rightarrow> val list \<Rightarrow> val list \<Rightarrow> val \<Rightarrow> affinityAttr option \<Rightarrow> blockid \<Rightarrow>
   operation" where
  "mkAwait i tys operands sizes tp aff b =
     \<lparr>ident = i, opname = TimepointAwaitOp, operandGroups = [operands, sizes, [tp]],
      resultTypes = tys, tiedOperands = map Some [0..<length operands], affinity = aff,
      parentBlock = b\<rparr>"

text \<open>
  Modelled from the spec: \<^verbatim>\<open>getTiedResultOperand\<close> of the tied-operand interface
  is not in \<^verbatim>\<open>StreamOpFolders.cpp\<close>. For a result of an await it is the awaited
  resource the result is tied to: operand \<open>k\<close> for result \<open>k\<close> (the spec, as above).
  The patterns call it on results of awaits only.
\<close>

fun getTiedResultOperand :: "operation \<Rightarrow> val \<Rightarrow> val" where
  "getTiedResultOperand awaitOp (OpResult i k) = await_operands awaitOp ! k"
| "getTiedResultOperand awaitOp (BlockArgument b k) = BlockArgument b k"

text \<open>
  \<^verbatim>\<open>ChainAsyncExecuteWaits\<close> / \<^verbatim>\<open>ChainCmdExecuteWaits\<close>: the replacements
  are collected over the enumerated operands, then each is assigned to its slot.
\<close>

definition chainReplacements :: "ir \<Rightarrow> val list \<Rightarrow> (nat \<times> val) list" where
  "chainReplacements m operands =
     concat (map (\<lambda>(idx, v).
        case definingOpOfKind m TimepointAwaitOp v of
          None \<Rightarrow> []
        | Some awaitOp \<Rightarrow> [(idx, getTiedResultOperand awaitOp v)])
       (zip [0..<length operands] operands))"

definition ChainExecuteWaits :: "ir \<Rightarrow> operation \<Rightarrow> operation option" where
  "ChainExecuteWaits m op =
     (let replacements = chainReplacements m (execute_operands op) in
      if replacements = [] then None
      else Some (assign_execute_operands
                   (fold (\<lambda>(idx, v) operands. operands[idx := v]) replacements
                      (execute_operands op)) op))"

section \<open>Sinking an op to a target\<close>

text \<open>
  \<^verbatim>\<open>findInsertionPointBefore\<close> returns a block iterator: the earliest op or the
  target op. The producers are the defining ops of the target's operands. The loop runs
  from the iterator of the earliest op up to the iterator of the target op, over the ops
  of their block. (When the target is not after the earliest op in the block the C++
  loop runs past the end of the block; the patterns never call it so.)
\<close>

definition producerOps :: "ir \<Rightarrow> operation \<Rightarrow> opid list" where
  "producerOps m targetOp =
     concat (map (\<lambda>operand.
        case getDefiningOp m operand of None \<Rightarrow> [] | Some d \<Rightarrow> [ident d])
       (getOperands targetOp))"

definition opsFromUpTo :: "ir \<Rightarrow> operation \<Rightarrow> operation \<Rightarrow> operation list" where
  "opsFromUpTo m earliestOp targetOp =
     takeWhile (\<lambda>op. ident op \<noteq> ident targetOp)
       (dropWhile (\<lambda>op. ident op \<noteq> ident earliestOp)
          (filter (\<lambda>op. parentBlock op = parentBlock earliestOp) m))"

definition findInsertionPointBefore :: "ir \<Rightarrow> operation \<Rightarrow> operation \<Rightarrow> opid" where
  "findInsertionPointBefore m earliestOp targetOp =
     (if parentBlock earliestOp = parentBlock targetOp then
        (let allUsed = list_all (\<lambda>op. ident op \<in> set (producerOps m targetOp))
                         (opsFromUpTo m earliestOp targetOp)
         in if allUsed then ident earliestOp else ident targetOp)
      else ident targetOp)"

text \<open>\<^verbatim>\<open>op->moveBefore(targetOp)\<close>: unlink, then link in front of the target.\<close>

definition moveBefore :: "operation \<Rightarrow> operation \<Rightarrow> ir \<Rightarrow> ir" where
  "moveBefore op targetOp m =
     insertBefore (ident targetOp) (op\<lparr>parentBlock := parentBlock targetOp\<rparr>)
       (eraseOp (ident op) m)"

text \<open>\<^verbatim>\<open>sinkOp\<close>: the IR after the move, or \<open>None\<close> for failure.\<close>

definition sinkOp :: "ir \<Rightarrow> operation \<Rightarrow> operation \<Rightarrow> ir option" where
  "sinkOp m op targetOp =
     (let ip = findInsertionPointBefore m op targetOp in
      if ip = ident op then None else Some (moveBefore op targetOp m))"

section \<open>Copy-on-write materialization\<close>

text \<open>
  \<^verbatim>\<open>MaterializeCOW<Op>\<close>. The struct \<^verbatim>\<open>TiedUse\<close> of the source holds the
  user, the operand index and the value.
\<close>

datatype TiedUse = TiedUse (user: opid) (operandIndex: nat) (usedValue: val)

text \<open>
  The loop over \<^verbatim>\<open>result.getUses()\<close>: a use owned by a
  \<^verbatim>\<open>TimepointAwaitOp\<close> is passed over by \<^verbatim>\<open>continue\<close>; a tied use is pushed
  to \<^verbatim>\<open>tiedUses\<close>; any other use increments \<^verbatim>\<open>untiedUses\<close>.
\<close>

definition classifyUse ::
  "val \<Rightarrow> operation \<times> nat \<Rightarrow> TiedUse list \<times> nat \<Rightarrow> TiedUse list \<times> nat" where
  "classifyUse result use acc =
     (case use of (owner, operandNumber) \<Rightarrow>
      case acc of (tiedUses, untiedUses) \<Rightarrow>
        if opname owner = TimepointAwaitOp then (tiedUses, untiedUses)
        else if isOperandTied owner operandNumber
          then (tiedUses @ [TiedUse (ident owner) operandNumber result], untiedUses)
        else (tiedUses, untiedUses + 1))"

definition classifyUses :: "ir \<Rightarrow> val \<Rightarrow> TiedUse list \<times> nat" where
  "classifyUses m result = fold (classifyUse result) (getUses m result) ([], 0)"

text \<open>\<^verbatim>\<open>op->setOperand(idx, value)\<close>, on the operand groups.\<close>

fun setNthConcat :: "'a list list \<Rightarrow> nat \<Rightarrow> 'a \<Rightarrow> 'a list list" where
  "setNthConcat [] i v = []"
| "setNthConcat (g # gs) i v =
     (if i < length g then g[i := v] # gs else g # setNthConcat gs (i - length g) v)"

definition setOperand :: "nat \<Rightarrow> val \<Rightarrow> operation \<Rightarrow> operation" where
  "setOperand i v op = op\<lparr>operandGroups := setNthConcat (operandGroups op) i v\<rparr>"

text \<open>A mutation of the operation a pointer refers to.\<close>

definition modifyOp :: "opid \<Rightarrow> (operation \<Rightarrow> operation) \<Rightarrow> ir \<Rightarrow> ir" where
  "modifyOp i f m = map (\<lambda>op. if ident op = i then f op else op) m"

text \<open>
  \<^verbatim>\<open>AsyncCloneOp(source, source_size, result_size, affinity)\<close> with the result type
  \<^verbatim>\<open>ResourceType::get(context)\<close>, the resource type of unknown lifetime.
\<close>

definition mkClone ::
  "opid \<Rightarrow> val \<Rightarrow> val \<Rightarrow> val \<Rightarrow> affinityAttr option \<Rightarrow> blockid \<Rightarrow> operation" where
  "mkClone i src srcSize resSize aff b =
     \<lparr>ident = i, opname = AsyncCloneOp, operandGroups = [[src], [srcSize], [resSize]],
      resultTypes = [ResourceType Unknown], tiedOperands = [None], affinity = aff,
      parentBlock = b\<rparr>"

text \<open>
  The body of the loop over \<^verbatim>\<open>tiedUses\<close>: the insertion point is set to the user,
  the clone is created there with the user's affinity, or the source affinity when the
  user has none, and the user's operand is set to the clone's result.

  \<^verbatim>\<open>queryValueSize\<close> of the size-aware type interface is not in
  \<^verbatim>\<open>StreamOpFolders.cpp\<close>; it is taken as the parameter \<open>queryValueSize\<close>,
  which gives the size value of a resource value (the spec: a resource-typed value
  carries or can be queried for an associated size value).
\<close>

definition materializeTiedUse ::
  "(val \<Rightarrow> val) \<Rightarrow> affinityAttr option \<Rightarrow> TiedUse \<Rightarrow> ir \<Rightarrow> ir" where
  "materializeTiedUse queryValueSize sourceAffinity tiedUse m =
     (case lookupOp m (user tiedUse) of
        None \<Rightarrow> m
      | Some userOp \<Rightarrow>
          (let targetSize = queryValueSize (usedValue tiedUse);
               targetAffinity = affinity userOp;
               cloneOp = mkClone (freshId m) (usedValue tiedUse) targetSize targetSize
                           (case targetAffinity of
                              Some a \<Rightarrow> Some a
                            | None \<Rightarrow> sourceAffinity)
                           (parentBlock userOp)
           in modifyOp (user tiedUse)
                (setOperand (operandIndex tiedUse) (OpResult (ident cloneOp) 0))
                (insertBefore (user tiedUse) cloneOp m)))"

text \<open>
  The body of the loop over the results of the op, on the IR as the earlier results left
  it, with the flag \<^verbatim>\<open>didChange\<close>.
\<close>

definition materializeResult ::
  "(val \<Rightarrow> val) \<Rightarrow> operation \<Rightarrow> nat \<Rightarrow> ir \<times> bool \<Rightarrow> ir \<times> bool" where
  "materializeResult queryValueSize op k st =
     (case st of (m, didChange) \<Rightarrow>
      case resultTypes op ! k of
        ResourceType lt \<Rightarrow>
          (let forceClone = (lt = Constant);
               result = OpResult (ident op) k;
               tiedUses = fst (classifyUses m result);
               untiedUses = snd (classifyUses m result)
           in if tiedUses = [] then (m, didChange)
              else if length tiedUses = 1 \<and> untiedUses = 0 \<and> \<not> forceClone
                then (m, didChange)
              else (fold (materializeTiedUse queryValueSize (affinity op)) tiedUses m,
                    True))
      | _ \<Rightarrow> (m, didChange))"

definition MaterializeCOW :: "(val \<Rightarrow> val) \<Rightarrow> ir \<Rightarrow> operation \<Rightarrow> ir option" where
  "MaterializeCOW queryValueSize m op =
     (case fold (materializeResult queryValueSize op) [0..<length (resultTypes op)]
             (m, False) of
        (m', didChange) \<Rightarrow> if didChange then Some m' else None)"

text \<open>
  What the spec asks of the materialization, in its own words: for every tied use, an
  \<^verbatim>\<open>async.clone\<close> of the value immediately before the consumer, with the
  consumer's affinity (fallback to the source's), and that operand rewritten to the
  clone; every other operand keeps its value. With the classification of the code, a
  tied use is a tied operand slot of an op other than \<^verbatim>\<open>timepoint.await\<close>.

  The clones are created along the use list, from the last tied slot of the last
  consumer back to the first tied slot of the first one, each directly in front of its
  consumer: the clones of one consumer stand in front of it in the order of their
  creation, the clone for its last tied slot first. \<open>n\<close> is the identity of the
  first clone created; the first clone of a consumer comes after the
  \<open>tiedUseCount\<close> clones of the consumers behind it.
\<close>

definition tiedSlots :: "val \<Rightarrow> operation \<Rightarrow> nat list" where
  "tiedSlots result op =
     (if opname op = TimepointAwaitOp then []
      else filter (\<lambda>i. getOperands op ! i = result \<and> isOperandTied op i)
             [0..<length (getOperands op)])"

definition untiedSlots :: "val \<Rightarrow> operation \<Rightarrow> nat list" where
  "untiedSlots result op =
     (if opname op = TimepointAwaitOp then []
      else filter (\<lambda>i. getOperands op ! i = result \<and> \<not> isOperandTied op i)
             [0..<length (getOperands op)])"

definition tiedUseCount :: "val \<Rightarrow> ir \<Rightarrow> nat" where
  "tiedUseCount result m = length (concat (map (tiedSlots result) m))"

definition untiedUseCount :: "val \<Rightarrow> ir \<Rightarrow> nat" where
  "untiedUseCount result m = length (concat (map (untiedSlots result) m))"

fun clonesFor ::
  "(val \<Rightarrow> val) \<Rightarrow> affinityAttr option \<Rightarrow> val \<Rightarrow> operation \<Rightarrow> opid \<Rightarrow> nat list \<Rightarrow>
   operation list" where
  "clonesFor q srcAff result consumer n [] = []"
| "clonesFor q srcAff result consumer n (i # slots) =
     mkClone n result (q result) (q result)
       (case affinity consumer of Some a \<Rightarrow> Some a | None \<Rightarrow> srcAff)
       (parentBlock consumer)
     # clonesFor q srcAff result consumer (Suc n) slots"

fun rewireSlots :: "opid \<Rightarrow> nat list \<Rightarrow> operation \<Rightarrow> operation" where
  "rewireSlots n [] consumer = consumer"
| "rewireSlots n (i # slots) consumer =
     rewireSlots (Suc n) slots (setOperand i (OpResult n 0) consumer)"





section \<open>Grouping awaits by timepoint\<close>





definition mergedAwait :: "(val \<Rightarrow> ty) \<Rightarrow> opid \<Rightarrow> operation \<Rightarrow> operation list \<Rightarrow> operation" where
  "mergedAwait getType n op covered =
     (let newOperands = await_operands op @ concat (map await_operands covered);
          newOperandSizes =
            await_operand_sizes op @ concat (map await_operand_sizes covered)
      in mkAwait n (map getType newOperands) newOperands newOperandSizes
           (await_timepoint op) (affinity op) (parentBlock op))"




section \<open>Concrete inputs\<close>

text \<open>An operation written out field by field, for the concrete inputs below.\<close>

definition mkOp ::
  "opid \<Rightarrow> opname \<Rightarrow> val list list \<Rightarrow> ty list \<Rightarrow> nat option list \<Rightarrow>
   affinityAttr option \<Rightarrow> blockid \<Rightarrow> operation" where
  "mkOp i n gs tys tied aff b =
     \<lparr>ident = i, opname = n, operandGroups = gs, resultTypes = tys, tiedOperands = tied,
      affinity = aff, parentBlock = b\<rparr>"

text \<open>
  An \<^verbatim>\<open>async.execute\<close> that awaits an immediate timepoint twice, a block argument
  twice, a join and another block argument.
\<close>

definition ex6_execute :: operation where
  "ex6_execute = mkOp 3 AsyncExecuteOp
     [[], [], [], [OpResult 1 0, BlockArgument 0 0, OpResult 2 0, BlockArgument 0 0,
                   BlockArgument 0 1, OpResult 1 0]]
     [TimepointType] [] None 0"

definition ex6_ir :: ir where
  "ex6_ir = [mkOp 1 TimepointImmediateOp [] [TimepointType] [None] None 0,
             mkOp 2 TimepointJoinOp [[BlockArgument 0 2, BlockArgument 0 3]] [TimepointType] [None] None 0,
             ex6_execute]"

text \<open>
  An \<^verbatim>\<open>async.copy\<close> of the bytes 8 to 16 of a 16-byte source into a 64-byte
  target, and an export of its result.
\<close>

definition ex5_copy :: operation where
  "ex5_copy = mkCopy 4 [ResourceType Transient]
     (BlockArgument 0 0) (OpResult 3 0) (OpResult 1 0) (OpResult 2 0)
     (BlockArgument 0 1) (OpResult 2 0) (OpResult 1 0) (OpResult 2 0) (OpResult 1 0)
     [Some 0] None"

definition ex5_ir :: ir where
  "ex5_ir = [mkConstant 1 8, mkConstant 2 16, mkConstant 3 64, ex5_copy,
     mkOp 5 TensorExportOp [[OpResult 4 0]] [ScalarType] [None] None 0]"

text \<open>
  A \<^verbatim>\<open>tensor.clone\<close> of a block argument; a dispatch that ties the block argument
  (the clone's source) to its result; two exports of the clone's result.
\<close>

definition ex3_clone :: operation where
  "ex3_clone = mkOp 1 TensorCloneOp [[BlockArgument 0 0], [BlockArgument 0 1]]
     [ResourceType Unknown] [None] None 0"

definition ex3_ir :: ir where
  "ex3_ir = [ex3_clone,
     mkOp 2 AsyncDispatchOp [[BlockArgument 0 0], [BlockArgument 0 1]]
       [ResourceType Unknown] [Some 0] None 0,
     mkOp 3 TensorExportOp [[OpResult 1 0]] [ScalarType] [None] None 0,
     mkOp 4 TensorExportOp [[OpResult 1 0]] [ScalarType] [None] None 0]"

text \<open>
  An await of the resource \<open>BlockArgument 0 0\<close> on the timepoint \<open>BlockArgument 0 2\<close>,
  and an execute op (async, cmd) that captures the awaited result and awaits nothing.
\<close>

definition ex2_await :: operation where
  "ex2_await = mkAwait 1 [ResourceType Transient] [BlockArgument 0 0] [BlockArgument 0 1]
     (BlockArgument 0 2) None 0"

definition ex2_async :: operation where
  "ex2_async = mkOp 2 AsyncExecuteOp [[OpResult 1 0], [BlockArgument 0 1], [], []]
     [TimepointType] [] None 0"

definition ex2_cmd :: operation where
  "ex2_cmd = mkOp 2 CmdExecuteOp [[OpResult 1 0], [BlockArgument 0 1], []]
     [TimepointType] [] None 0"

text \<open>
  Block 0: a splat, a constant and a conditional branch on the constant. The splat is
  used in the two successor blocks 1 and 2 only, so \<^verbatim>\<open>SinkSplatsToConsumers\<close>
  takes the terminator of block 0, the common dominator, as the target.
\<close>

definition ex8_splat :: operation where
  "ex8_splat = mkOp 1 AsyncSplatOp [[BlockArgument 0 0], [BlockArgument 0 1]]
     [ResourceType Transient] [None] None 0"

definition ex8_branch :: operation where
  "ex8_branch = mkOp 3 CondBranchOp [[OpResult 2 0]] [] [] None 0"

definition ex8_users :: ir where
  "ex8_users =
     [mkOp 4 TensorExportOp [[OpResult 1 0]] [ScalarType] [None] None 1,
      mkOp 5 ReturnOp [[OpResult 4 0]] [] [] None 1,
      mkOp 6 TensorExportOp [[OpResult 1 0]] [ScalarType] [None] None 2,
      mkOp 7 ReturnOp [[OpResult 6 0]] [] [] None 2]"

definition ex8_ir :: ir where
  "ex8_ir = [ex8_splat, mkConstant 2 1, ex8_branch] @ ex8_users"





text \<open>
  A constant-lifetime resource with an await, a dispatch that takes it as its tied
  operand 0 and again as its untied operand 1, a second dispatch that ties it twice, as
  its operands 0 and 1, and an export; a dispatch with two transient results, the first
  with one tied and one untied use, the second with two tied uses; and a transient
  resource whose only uses are an await and one tied dispatch, with the await's operand
  tied as awaits have it, and untied. The size query answers with the block argument
  that holds the size.
\<close>

definition ex1_producer :: operation where
  "ex1_producer = mkOp 1 AsyncConstantOp [[BlockArgument 0 1]] [ResourceType Constant]
     [None] (Some ''dev0'') 0"

definition ex1_await :: operation where
  "ex1_await = mkAwait 2 [ResourceType Constant] [OpResult 1 0] [BlockArgument 0 1]
     (BlockArgument 0 2) None 0"

definition ex1_ir :: ir where
  "ex1_ir = [ex1_producer, ex1_await,
     mkOp 3 AsyncDispatchOp [[OpResult 1 0, OpResult 1 0], [BlockArgument 0 1]]
       [ResourceType Transient] [Some 0] (Some ''dev1'') 0,
     mkOp 4 AsyncDispatchOp [[OpResult 1 0, OpResult 1 0], [BlockArgument 0 1]]
       [ResourceType Transient, ResourceType Transient] [Some 0, Some 1] None 0,
     mkOp 5 TensorExportOp [[OpResult 1 0]] [ScalarType] [None] None 0]"

definition ex1_after :: ir where
  "ex1_after = [ex1_producer, ex1_await,
     mkClone 8 (OpResult 1 0) (BlockArgument 0 1) (BlockArgument 0 1) (Some ''dev1'') 0,
     mkOp 3 AsyncDispatchOp [[OpResult 8 0, OpResult 1 0], [BlockArgument 0 1]]
       [ResourceType Transient] [Some 0] (Some ''dev1'') 0,
     mkClone 6 (OpResult 1 0) (BlockArgument 0 1) (BlockArgument 0 1) (Some ''dev0'') 0,
     mkClone 7 (OpResult 1 0) (BlockArgument 0 1) (BlockArgument 0 1) (Some ''dev0'') 0,
     mkOp 4 AsyncDispatchOp [[OpResult 7 0, OpResult 6 0], [BlockArgument 0 1]]
       [ResourceType Transient, ResourceType Transient] [Some 0, Some 1] None 0,
     mkOp 5 TensorExportOp [[OpResult 1 0]] [ScalarType] [None] None 0]"




definition ex1_size :: "val \<Rightarrow> val" where
  "ex1_size v = BlockArgument 0 1"







section \<open>Properties of the embedded patterns\<close>

subsection \<open>The rewriter\<close>

lemma fold_max_ge: "(a::nat) \<le> fold max xs a"
  by (induction xs arbitrary: a) (auto intro: order_trans [OF max.cobounded2])

lemma fold_max_mem: "(x::nat) \<in> set xs \<Longrightarrow> x \<le> fold max xs a"
proof (induction xs arbitrary: a)
  case Nil
  then show ?case by simp
next
  case (Cons y ys)
  show ?case
  proof (cases "x = y")
    case True
    have "x \<le> max y a" using True by simp
    also have "\<dots> \<le> fold max ys (max y a)" by (rule fold_max_ge)
    finally show ?thesis by simp
  next
    case False
    then show ?thesis using Cons by simp
  qed
qed

lemma freshId_gt: "op \<in> set m \<Longrightarrow> ident op < freshId m"
  using fold_max_mem [of "ident op" "map ident m" 0] by (simp add: freshId_def less_Suc_eq_le)

lemma freshId_notin: "freshId m \<notin> ident ` set m"
  using freshId_gt by fastforce


lemma ident_mapOperands [simp]: "ident (mapOperands f op) = ident op"
  by (simp add: mapOperands_def)










subsection \<open>The folds of subview and slice\<close>

text \<open>
  Claim C9. Both folds replace the op with its source as soon as the source-size operand
  and the result-size operand are the same value; the offset is not looked at, so the
  fold also fires for every offset operand, a nonzero constant included.
\<close>

theorem C9_folds_ignore_offset:
  "ResourceSubviewOp_fold (mkSubview i src sz off sz) = Some src \<and>
   AsyncSliceOp_fold (mkSlice j src sz off e sz aff) = Some src \<and>
   (subview_source_size op = subview_result_size op \<longrightarrow>
      ResourceSubviewOp_fold op = Some (subview_source op)) \<and>
   (slice_source_size op' = slice_result_size op' \<longrightarrow>
      AsyncSliceOp_fold op' = Some (slice_source op'))"
  by (simp add: ResourceSubviewOp_fold_def AsyncSliceOp_fold_def mkSubview_def mkSlice_def
      subview_source_def subview_source_size_def subview_result_size_def
      slice_source_def slice_source_size_def slice_result_size_def getOperands_def)

theorem C9_folds_ignore_offset_witness:
  "constantValue [mkConstant 1 8, mkConstant 2 16] (OpResult 1 0) = Some 8 \<and>
   subview_source_offset
     (mkSubview 3 (BlockArgument 0 0) (OpResult 2 0) (OpResult 1 0) (OpResult 2 0))
     = OpResult 1 0 \<and>
   ResourceSubviewOp_fold
     (mkSubview 3 (BlockArgument 0 0) (OpResult 2 0) (OpResult 1 0) (OpResult 2 0))
     = Some (BlockArgument 0 0) \<and>
   slice_source_offset
     (mkSlice 4 (BlockArgument 0 0) (OpResult 2 0) (OpResult 1 0) (OpResult 2 0)
        (OpResult 2 0) None)
     = OpResult 1 0 \<and>
   AsyncSliceOp_fold
     (mkSlice 4 (BlockArgument 0 0) (OpResult 2 0) (OpResult 1 0) (OpResult 2 0)
        (OpResult 2 0) None)
     = Some (BlockArgument 0 0)"
  using C9_folds_ignore_offset
    [of 3 "BlockArgument 0 0" "OpResult 2 0" "OpResult 1 0" 4 "OpResult 2 0" None
        "mkSubview 3 (BlockArgument 0 0) (OpResult 2 0) (OpResult 1 0) (OpResult 2 0)"
        "mkSlice 4 (BlockArgument 0 0) (OpResult 2 0) (OpResult 1 0) (OpResult 2 0)
           (OpResult 2 0) None"]
  by (simp add: constantValue_def lookupOp_def mkConstant_def mkSubview_def mkSlice_def
      subview_source_offset_def slice_source_offset_def getOperands_def
      subview_source_size_def subview_result_size_def subview_source_def
      slice_source_size_def slice_result_size_def slice_source_def)

subsection \<open>The await list of an execute op\<close>

lemma eraseAt_append:
  "i < length ys \<Longrightarrow> eraseAt i (ys @ zs) = eraseAt i ys @ zs"
  by (simp add: eraseAt_def)

lemma length_eraseAt: "i < length ys \<Longrightarrow> length (eraseAt i ys) = length ys - 1"
  by (simp add: eraseAt_def)

lemma fold_eraseAt_append:
  "sorted_wrt (>) is \<Longrightarrow> \<forall>i\<in>set is. i < length ys \<Longrightarrow>
   fold eraseAt is (ys @ zs) = fold eraseAt is ys @ zs"
proof (induction "is" arbitrary: ys)
  case Nil
  then show ?case by simp
next
  case (Cons i rest)
  have i: "i < length ys" using Cons.prems(2) by simp
  have rest: "\<forall>j\<in>set rest. j < length (eraseAt i ys)"
    using Cons.prems i by (auto simp: length_eraseAt)
  have srt: "sorted_wrt (>) rest" using Cons.prems(1) by simp
  show ?case
    using Cons.IH [OF srt rest] i by (simp add: eraseAt_append)
qed

lemma eraseAt_last: "eraseAt (length ys) (ys @ [y]) = ys"
  by (simp add: eraseAt_def)

lemma sorted_rev_filter_upt: "sorted_wrt (>) (rev (filter P [0..<n]))"
proof -
  have "sorted_wrt (<) (filter P [0..<n])"
    by (rule sorted_wrt_filter) simp
  then show ?thesis by (simp add: sorted_wrt_rev)
qed

lemma fold_eraseAt_filter:
  "fold eraseAt (rev (filter (\<lambda>i. P (xs ! i)) [0..<length xs])) xs = filter (\<lambda>x. \<not> P x) xs"
proof (induction xs rule: rev_induct)
  case Nil
  then show ?case by simp
next
  case (snoc y ys)
  let ?n = "length ys"
  have idx: "filter (\<lambda>i. P ((ys @ [y]) ! i)) [0..<?n] = filter (\<lambda>i. P (ys ! i)) [0..<?n]"
    by (rule filter_cong) (auto simp: nth_append)
  let ?is = "rev (filter (\<lambda>i. P (ys ! i)) [0..<?n])"
  have bound: "\<forall>i\<in>set ?is. i < length ys" by auto
  have srt: "sorted_wrt (>) ?is" by (rule sorted_rev_filter_upt)
  show ?case
  proof (cases "P y")
    case True
    then show ?thesis
      using snoc.IH by (simp add: idx eraseAt_last)
  next
    case False
    then show ?thesis
      using snoc.IH fold_eraseAt_append [OF srt bound, of "[y]"] by (simp add: idx)
  qed
qed

lemma remdups_append_dup:
  "x \<in> set B \<Longrightarrow> remdups (A @ x # B) = remdups (A @ B)"
  by (induction A) auto

lemma fold_setVectorInsert:
  "distinct acc \<Longrightarrow> fold setVectorInsert xs acc = rev (remdups (rev (acc @ xs)))"
proof (induction xs arbitrary: acc)
  case Nil
  then show ?case by (simp add: distinct_remdups_id)
next
  case (Cons x xs)
  show ?case
  proof (cases "x \<in> set acc")
    case True
    then have "remdups (rev xs @ x # rev acc) = remdups (rev xs @ rev acc)"
      by (simp add: remdups_append_dup)
    then show ?thesis
      using True Cons.IH [OF Cons.prems] by (simp add: setVectorInsert_def)
  next
    case False
    then have d: "distinct (acc @ [x])" using Cons.prems by simp
    show ?thesis
      using False Cons.IH [OF d] by (simp add: setVectorInsert_def)
  qed
qed

lemma await_assign:
  "awaitGroup op < length (operandGroups op) \<Longrightarrow>
   await_timepoints (assign_await_timepoints vs op) = vs"
  by (simp add: await_timepoints_def assign_await_timepoints_def awaitGroup_def)

lemma awaitGroup_assign:
  "awaitGroup (assign_await_timepoints vs op) = awaitGroup op"
  by (simp add: assign_await_timepoints_def awaitGroup_def)

lemma elideImmediate_list:
  "awaitGroup op < length (operandGroups op) \<Longrightarrow>
   await_timepoints (applyPattern (ElideImmediateExecuteWaits m) op) =
     filter (\<lambda>t. \<not> isImmediate m t) (await_timepoints op)"
proof -
  assume wf: "awaitGroup op < length (operandGroups op)"
  let ?ts = "await_timepoints op"
  show ?thesis
  proof (cases "elidedTimepoints m ?ts = []")
    case True
    then have "\<forall>i<length ?ts. \<not> isImmediate m (?ts ! i)"
      by (auto simp: elidedTimepoints_def filter_empty_conv)
    then have "\<forall>t\<in>set ?ts. \<not> isImmediate m t"
      by (auto simp: in_set_conv_nth)
    then have "filter (\<lambda>t. \<not> isImmediate m t) ?ts = ?ts" by simp
    then show ?thesis
      using True by (simp add: applyPattern_def ElideImmediateExecuteWaits_def)
  next
    case False
    then show ?thesis
      using wf fold_eraseAt_filter [of "isImmediate m" ?ts]
      by (simp add: applyPattern_def ElideImmediateExecuteWaits_def Let_def await_assign
          elidedTimepoints_def)
  qed
qed

lemma elideDuplicate_list:
  "awaitGroup op < length (operandGroups op) \<Longrightarrow>
   await_timepoints (applyPattern ElideDuplicateExecuteWaits op) =
     rev (remdups (rev (await_timepoints op)))"
proof -
  assume wf: "awaitGroup op < length (operandGroups op)"
  let ?ts = "await_timepoints op"
  have u: "fold setVectorInsert ?ts [] = rev (remdups (rev ?ts))"
    using fold_setVectorInsert [of "[]" ?ts] by simp
  show ?thesis
  proof (cases "length (rev (remdups (rev ?ts))) = length ?ts")
    case True
    then have "length (remdups (rev ?ts)) = length (rev ?ts)" by simp
    then have "remdups (rev ?ts) = rev ?ts"
      by (metis distinct_rev length_remdups_eq remdups_id_iff_distinct)
    then have "rev (remdups (rev ?ts)) = rev (rev ?ts)" by (simp only:)
    then have same: "rev (remdups (rev ?ts)) = ?ts" by (simp only: rev_rev_ident)
    have "ElideDuplicateExecuteWaits op = None"
      using u same by (simp add: ElideDuplicateExecuteWaits_def)
    then show ?thesis
      using same by (simp add: applyPattern_def)
  next
    case False
    then show ?thesis
      using wf u by (simp add: applyPattern_def ElideDuplicateExecuteWaits_def await_assign)
  qed
qed


lemma wf_applyImmediate:
  "awaitGroup op < length (operandGroups op) \<Longrightarrow>
   awaitGroup (applyPattern (ElideImmediateExecuteWaits m) op)
     < length (operandGroups (applyPattern (ElideImmediateExecuteWaits m) op))"
  by (auto simp: applyPattern_def ElideImmediateExecuteWaits_def Let_def
      assign_await_timepoints_def awaitGroup_def split: if_splits)

lemma wf_applyDuplicate:
  "awaitGroup op < length (operandGroups op) \<Longrightarrow>
   awaitGroup (applyPattern ElideDuplicateExecuteWaits op)
     < length (operandGroups (applyPattern ElideDuplicateExecuteWaits op))"
  by (auto simp: applyPattern_def ElideDuplicateExecuteWaits_def Let_def
      assign_await_timepoints_def awaitGroup_def split: if_splits)

lemma elideImmediate_fails:
  "\<not> list_ex (isImmediate m) (await_timepoints op) \<Longrightarrow>
   ElideImmediateExecuteWaits m op = None"
  by (auto simp: ElideImmediateExecuteWaits_def elidedTimepoints_def filter_empty_conv
      list_ex_iff)

lemma elideDuplicate_fails:
  "distinct (await_timepoints op) \<Longrightarrow> ElideDuplicateExecuteWaits op = None"
proof -
  assume d: "distinct (await_timepoints op)"
  have "fold setVectorInsert (await_timepoints op) [] =
        rev (remdups (rev (await_timepoints op)))"
    using fold_setVectorInsert [of "[]" "await_timepoints op"] by simp
  moreover have "remdups (rev (await_timepoints op)) = rev (await_timepoints op)"
    using d by (simp add: distinct_remdups_id)
  ultimately show ?thesis by (simp add: ElideDuplicateExecuteWaits_def)
qed

text \<open>
  Claim C6. On an execute op, the two await-list patterns in their registered order (elide
  the immediate timepoints, then the duplicates) leave the await list as the original
  list without its immediate-defined entries, each remaining timepoint kept once at its
  first occurrence: no immediate-defined entry and no duplicate is left, and neither
  pattern matches again.
\<close>

theorem C6_execute_await_list:
  assumes wf: "awaitGroup op < length (operandGroups op)"
  shows "let op' = applyPattern ElideDuplicateExecuteWaits
                     (applyPattern (ElideImmediateExecuteWaits m) op)
         in await_timepoints op' =
              rev (remdups (rev (filter (\<lambda>t. \<not> isImmediate m t) (await_timepoints op)))) \<and>
            \<not> list_ex (isImmediate m) (await_timepoints op') \<and>
            distinct (await_timepoints op') \<and>
            ElideImmediateExecuteWaits m op' = None \<and>
            ElideDuplicateExecuteWaits op' = None"
proof -
  let ?op1 = "applyPattern (ElideImmediateExecuteWaits m) op"
  let ?op2 = "applyPattern ElideDuplicateExecuteWaits ?op1"
  let ?res = "rev (remdups (rev (filter (\<lambda>t. \<not> isImmediate m t) (await_timepoints op))))"
  have wf1: "awaitGroup ?op1 < length (operandGroups ?op1)"
    using wf by (rule wf_applyImmediate)
  have l2: "await_timepoints ?op2 = ?res"
    using elideDuplicate_list [OF wf1] elideImmediate_list [OF wf] by simp
  have noimm: "\<not> list_ex (isImmediate m) (await_timepoints ?op2)"
    by (simp add: l2 list_ex_iff)
  have dist: "distinct (await_timepoints ?op2)"
    by (simp add: l2)
  show ?thesis
    using l2 noimm dist elideImmediate_fails [OF noimm] elideDuplicate_fails [OF dist]
    by (simp add: Let_def)
qed

theorem C6_execute_await_list_witness:
  "awaitGroup ex6_execute < length (operandGroups ex6_execute) \<and>
   await_timepoints ex6_execute =
     [OpResult 1 0, BlockArgument 0 0, OpResult 2 0, BlockArgument 0 0,
      BlockArgument 0 1, OpResult 1 0] \<and>
   isImmediate ex6_ir (OpResult 1 0) \<and>
   await_timepoints (applyPattern ElideDuplicateExecuteWaits
       (applyPattern (ElideImmediateExecuteWaits ex6_ir) ex6_execute)) =
     [BlockArgument 0 0, OpResult 2 0, BlockArgument 0 1]"
proof -
  have wf: "awaitGroup ex6_execute < length (operandGroups ex6_execute)"
    by code_simp
  have step: "await_timepoints (applyPattern ElideDuplicateExecuteWaits
       (applyPattern (ElideImmediateExecuteWaits ex6_ir) ex6_execute)) =
     rev (remdups (rev (filter (\<lambda>t. \<not> isImmediate ex6_ir t)
       (await_timepoints ex6_execute))))"
    using C6_execute_await_list [OF wf, of ex6_ir] by (simp add: Let_def)
  have ev: "rev (remdups (rev (filter (\<lambda>t. \<not> isImmediate ex6_ir t)
       (await_timepoints ex6_execute)))) =
     [BlockArgument 0 0, OpResult 2 0, BlockArgument 0 1]"
    by code_simp
  have ts: "await_timepoints ex6_execute =
     [OpResult 1 0, BlockArgument 0 0, OpResult 2 0, BlockArgument 0 0,
      BlockArgument 0 1, OpResult 1 0]"
    by code_simp
  have imm: "isImmediate ex6_ir (OpResult 1 0)"
    by code_simp
  show ?thesis
    using wf step ev ts imm by (simp only: simp_thms)
qed

subsection \<open>The copy of a full source\<close>

text \<open>
  Claim C5, at a copy whose source range is not the entire source. The copy reads the
  bytes 8 to 16 of its source: the source offset is the constant 8, and the source end
  and the source size are the same value, the constant 16. The pattern compares only the
  end with the size, so it matches, and the copy is replaced by an update that takes the
  whole source with its size 16.
\<close>

theorem C5_copy_at_offset_becomes_update:
  "constantValue ex5_ir (copy_source_offset ex5_copy) = Some 8 \<and>
   constantValue ex5_ir (copy_source_end ex5_copy) = Some 16 \<and>
   constantValue ex5_ir (copy_source_size ex5_copy) = Some 16 \<and>
   AsyncCopyFullSourceToUpdate ex5_ir ex5_copy =
     Some [mkConstant 1 8, mkConstant 2 16, mkConstant 3 64,
           mkUpdate 6 [ResourceType Transient]
             (BlockArgument 0 0) (OpResult 3 0) (OpResult 1 0) (OpResult 2 0)
             (BlockArgument 0 1) (OpResult 2 0) [Some 0] None,
           mkOp 5 TensorExportOp [[OpResult 6 0]] [ScalarType] [None] None 0]"
  by code_simp

subsection \<open>The elision of tensor clones\<close>

text \<open>
  Claim C3, at a clone whose source has a tied use and whose result has none (and two
  users, so the fold of the op does not apply). The tensor pattern looks at the uses of
  the result only and replaces the clone with its source; the async pattern, which also
  looks at the source, leaves the same clone in place.
\<close>

theorem C3_tensor_clone_elided_with_tied_source:
  "hasAnyTiedUses ex3_ir (clone_source ex3_clone) \<and>
   \<not> hasAnyTiedUses ex3_ir (clone_result ex3_clone) \<and>
   TensorCloneOp_fold ex3_ir ex3_clone = None \<and>
   ElideUnneededTensorClones ex3_ir ex3_clone =
     Some [mkOp 2 AsyncDispatchOp [[BlockArgument 0 0], [BlockArgument 0 1]]
             [ResourceType Unknown] [Some 0] None 0,
           mkOp 3 TensorExportOp [[BlockArgument 0 0]] [ScalarType] [None] None 0,
           mkOp 4 TensorExportOp [[BlockArgument 0 0]] [ScalarType] [None] None 0] \<and>
   ElideUnneededAsyncClones ex3_ir ex3_clone = None"
  by code_simp

subsection \<open>Chaining the awaits of an execute op\<close>

text \<open>
  Whatever the pattern does to the captured operands, the await list of the op it returns
  is the await list it started with.
\<close>

lemma ChainExecuteWaits_await_timepoints:
  "ChainExecuteWaits m op = Some op' \<Longrightarrow> await_timepoints op' = await_timepoints op"
  by (auto simp: ChainExecuteWaits_def Let_def assign_execute_operands_def
      await_timepoints_def awaitGroup_def split: if_splits)

text \<open>
  Claim C2, at an execute op that captures the result of an await and has an empty await
  list. The pattern rewrites the captured operand to the awaited resource; the await
  list stays empty, so the timepoint of the await is not in it. The async and the cmd
  pattern do the same.
\<close>

theorem C2_chain_drops_timepoint:
  "await_timepoint ex2_await = BlockArgument 0 2 \<and>
   execute_operands ex2_async = [OpResult 1 0] \<and>
   await_timepoints ex2_async = [] \<and>
   ChainExecuteWaits [ex2_await, ex2_async] ex2_async =
     Some (mkOp 2 AsyncExecuteOp [[BlockArgument 0 0], [BlockArgument 0 1], [], []]
             [TimepointType] [] None 0) \<and>
   ChainExecuteWaits [ex2_await, ex2_cmd] ex2_cmd =
     Some (mkOp 2 CmdExecuteOp [[BlockArgument 0 0], [BlockArgument 0 1], []]
             [TimepointType] [] None 0) \<and>
   await_timepoints (mkOp 2 AsyncExecuteOp
       [[BlockArgument 0 0], [BlockArgument 0 1], [], []] [TimepointType] [] None 0) = [] \<and>
   await_timepoints (mkOp 2 CmdExecuteOp
       [[BlockArgument 0 0], [BlockArgument 0 1], []] [TimepointType] [] None 0) = []"
  by code_simp

subsection \<open>The sink helper\<close>

text \<open>
  The sink fails exactly when the op and the target are in one block and every op from
  the op itself up to the target is a producer of an operand of the target.
\<close>

lemma sinkOp_fails_iff:
  "ident op \<noteq> ident targetOp \<Longrightarrow>
   (sinkOp m op targetOp = None) =
   (parentBlock op = parentBlock targetOp \<and>
    list_all (\<lambda>x. ident x \<in> set (producerOps m targetOp)) (opsFromUpTo m op targetOp))"
  by (auto simp: sinkOp_def findInsertionPointBefore_def Let_def)

text \<open>
  Claim C8, at a splat and a target in one block where the splat is not an operand of
  the target. First with the producer of the target's operand as the only op strictly
  between them: the loop of \<^verbatim>\<open>findInsertionPointBefore\<close> starts at the splat
  itself, which is not a producer, so the splat is moved in front of the target and the
  sink reports success. Then from there, with no op strictly between the splat and the
  target: the sink reports success again, and the IR is the same.
\<close>

theorem C8_sink_moves_past_producers:
  "parentBlock ex8_splat = parentBlock ex8_branch \<and>
   producerOps ex8_ir ex8_branch = [2] \<and>
   opsFromUpTo ex8_ir ex8_splat ex8_branch = [ex8_splat, mkConstant 2 1] \<and>
   sinkOp ex8_ir ex8_splat ex8_branch =
     Some ([mkConstant 2 1, ex8_splat, ex8_branch] @ ex8_users) \<and>
   opsFromUpTo ([mkConstant 2 1, ex8_splat, ex8_branch] @ ex8_users) ex8_splat ex8_branch =
     [ex8_splat] \<and>
   sinkOp ([mkConstant 2 1, ex8_splat, ex8_branch] @ ex8_users) ex8_splat ex8_branch =
     Some ([mkConstant 2 1, ex8_splat, ex8_branch] @ ex8_users)"
  by code_simp

subsection \<open>The update from a slice\<close>









subsection \<open>Copy-on-write materialization\<close>

lemma fold_classifyUse:
  "fold (classifyUse r) us (T, n) =
   (T @ map (\<lambda>(u, i). TiedUse (ident u) i r)
          (filter (\<lambda>(u, i). opname u \<noteq> TimepointAwaitOp \<and> isOperandTied u i) us),
    n + length (filter (\<lambda>(u, i). opname u \<noteq> TimepointAwaitOp \<and> \<not> isOperandTied u i) us))"
  by (induction us arbitrary: T n) (auto simp: classifyUse_def)

lemma tied_usesIn:
  "map (\<lambda>(u, i). TiedUse (ident u) i r)
     (filter (\<lambda>(u, i). opname u \<noteq> TimepointAwaitOp \<and> isOperandTied u i) (usesIn r op)) =
   map (\<lambda>i. TiedUse (ident op) i r) (tiedSlots r op)"
  by (auto simp: usesIn_def tiedSlots_def filter_map comp_def intro: filter_cong)

lemma untied_usesIn:
  "length (filter (\<lambda>(u, i). opname u \<noteq> TimepointAwaitOp \<and> \<not> isOperandTied u i)
     (usesIn r op)) = length (untiedSlots r op)"
proof -
  have "filter (\<lambda>(u, i). opname u \<noteq> TimepointAwaitOp \<and> \<not> isOperandTied u i) (usesIn r op)
        = map (\<lambda>i. (op, i)) (untiedSlots r op)"
    by (auto simp: usesIn_def untiedSlots_def filter_map comp_def intro: filter_cong)
  then show ?thesis by simp
qed

lemma fst_classifyUses:
  "fst (classifyUses m r) =
   concat (map (\<lambda>u. map (\<lambda>i. TiedUse (ident u) i r) (rev (tiedSlots r u))) (rev m))"
proof -
  have "map (\<lambda>(u, i). TiedUse (ident u) i r)
          (filter (\<lambda>(u, i). opname u \<noteq> TimepointAwaitOp \<and> isOperandTied u i)
             (concat (map (usesIn r) m))) =
        concat (map (\<lambda>u. map (\<lambda>i. TiedUse (ident u) i r) (tiedSlots r u)) m)"
    by (induction m) (simp_all add: tied_usesIn)
  then have "map (\<lambda>(u, i). TiedUse (ident u) i r)
          (filter (\<lambda>(u, i). opname u \<noteq> TimepointAwaitOp \<and> isOperandTied u i)
             (rev (concat (map (usesIn r) m)))) =
        rev (concat (map (\<lambda>u. map (\<lambda>i. TiedUse (ident u) i r) (tiedSlots r u)) m))"
    by (simp only: rev_filter [symmetric] rev_map [symmetric])
  also have "\<dots> =
        concat (map (\<lambda>u. map (\<lambda>i. TiedUse (ident u) i r) (rev (tiedSlots r u))) (rev m))"
    by (simp add: rev_concat rev_map comp_def)
  finally show ?thesis
    by (simp add: classifyUses_def getUses_def fold_classifyUse)
qed

lemma tiedUseCount_simps [simp]:
  "tiedUseCount r [] = 0"
  "tiedUseCount r (u # m) = length (tiedSlots r u) + tiedUseCount r m"
  "tiedUseCount r (m @ m') = tiedUseCount r m + tiedUseCount r m'"
  by (simp_all add: tiedUseCount_def)

lemma untiedUseCount_simps [simp]:
  "untiedUseCount r [] = 0"
  "untiedUseCount r (u # m) = length (untiedSlots r u) + untiedUseCount r m"
  "untiedUseCount r (m @ m') = untiedUseCount r m + untiedUseCount r m'"
  by (simp_all add: untiedUseCount_def)


lemma snd_classifyUses: "snd (classifyUses m r) = untiedUseCount r m"
proof -
  have "length (filter (\<lambda>(u, i). opname u \<noteq> TimepointAwaitOp \<and> \<not> isOperandTied u i)
             (concat (map (usesIn r) m))) = untiedUseCount r m"
    by (induction m) (simp_all add: untied_usesIn)
  then have "length (filter (\<lambda>(u, i). opname u \<noteq> TimepointAwaitOp \<and> \<not> isOperandTied u i)
             (rev (concat (map (usesIn r) m)))) = untiedUseCount r m"
    by (simp only: rev_filter [symmetric] length_rev)
  then show ?thesis
    by (simp add: classifyUses_def getUses_def fold_classifyUse)
qed

lemma concat_map_filter:
  "(\<And>x. \<not> P x \<Longrightarrow> f x = []) \<Longrightarrow> concat (map f (filter P xs)) = concat (map f xs)"
  by (induction xs) simp_all

lemma classifyUses_without_awaits:
  "classifyUses (filter (\<lambda>op. opname op \<noteq> TimepointAwaitOp) m) r = classifyUses m r"
proof -
  have t: "concat (map (\<lambda>u. map (\<lambda>i. TiedUse (ident u) i r) (rev (tiedSlots r u)))
             (filter (\<lambda>op. opname op \<noteq> TimepointAwaitOp) (rev m))) =
           concat (map (\<lambda>u. map (\<lambda>i. TiedUse (ident u) i r) (rev (tiedSlots r u))) (rev m))"
    by (rule concat_map_filter) (simp add: tiedSlots_def)
  have u: "untiedUseCount r (filter (\<lambda>op. opname op \<noteq> TimepointAwaitOp) m) =
           untiedUseCount r m"
    by (induction m) (simp_all add: untiedSlots_def)
  show ?thesis
    by (rule prod_eqI) (simp_all add: fst_classifyUses snd_classifyUses rev_filter t u)
qed

lemma set_insertBefore: "set m \<subseteq> set (insertBefore t n m)"
  by (induction m) auto

lemma ids_insertBefore: "ident ` set (insertBefore t n m) \<subseteq> insert (ident n) (ident ` set m)"
  by (induction m) auto

lemma distinct_insertBefore:
  "distinct (map ident m) \<Longrightarrow> ident n \<notin> ident ` set m \<Longrightarrow>
   distinct (map ident (insertBefore t n m))"
proof (induction m)
  case Nil
  then show ?case by simp
next
  case (Cons x m)
  have sub: "ident ` set (insertBefore t n m) \<subseteq> insert (ident n) (ident ` set m)"
    by (rule ids_insertBefore)
  have x: "ident x \<notin> ident ` set m" "ident x \<noteq> ident n"
    using Cons.prems by auto
  then have "ident x \<notin> ident ` set (insertBefore t n m)"
    using sub by blast
  then show ?case
    using Cons by auto
qed

lemma ident_setOperand [simp]: "ident (setOperand i v op) = ident op"
  by (simp add: setOperand_def)

lemma ids_modifyOp_setOperand [simp]:
  "map ident (modifyOp u (setOperand i v) m) = map ident m"
  by (induction m) (simp_all add: modifyOp_def)

lemma materializeTiedUse_keeps:
  "a \<in> set m \<Longrightarrow> ident a \<noteq> user tu \<Longrightarrow> a \<in> set (materializeTiedUse q aff tu m)"
proof -
  assume a: "a \<in> set m" and ne: "ident a \<noteq> user tu"
  have "\<And>c f. a \<in> set (modifyOp (user tu) f (insertBefore (user tu) c m))"
    subgoal for c f
      using a ne set_insertBefore [of m "user tu" c]
      by (auto simp: modifyOp_def image_iff intro!: bexI [of _ a])
    done
  then show ?thesis
    using a by (simp add: materializeTiedUse_def Let_def split: option.splits)
qed

lemma materializeTiedUse_distinct:
  "distinct (map ident m) \<Longrightarrow> distinct (map ident (materializeTiedUse q aff tu m))"
proof -
  assume d: "distinct (map ident m)"
  have "\<And>c. ident c = freshId m \<Longrightarrow> distinct (map ident (insertBefore (user tu) c m))"
    using d freshId_notin [of m] by (simp add: distinct_insertBefore)
  then show ?thesis
    using d by (simp add: materializeTiedUse_def Let_def mkClone_def split: option.splits)
qed

lemma fold_materialize_keeps:
  "a \<in> set m \<Longrightarrow> \<forall>tu\<in>set T. user tu \<noteq> ident a \<Longrightarrow>
   a \<in> set (fold (materializeTiedUse q aff) T m)"
proof (induction T arbitrary: m)
  case Nil
  then show ?case by simp
next
  case (Cons tu T)
  have "a \<in> set (materializeTiedUse q aff tu m)"
    using Cons.prems by (intro materializeTiedUse_keeps) auto
  then show ?case
    using Cons.IH Cons.prems(2) by simp
qed

lemma fold_materialize_distinct:
  "distinct (map ident m) \<Longrightarrow> distinct (map ident (fold (materializeTiedUse q aff) T m))"
  by (induction T arbitrary: m) (auto intro: materializeTiedUse_distinct)

lemma tiedUses_users:
  "tu \<in> set (fst (classifyUses m r)) \<Longrightarrow>
   \<exists>u\<in>set m. user tu = ident u \<and> opname u \<noteq> TimepointAwaitOp"
  by (auto simp: fst_classifyUses tiedSlots_def split: if_splits)

lemma materializeResult_keeps_await:
  assumes d: "distinct (map ident m)" and a: "a \<in> set m"
      and aw: "opname a = TimepointAwaitOp"
  shows "distinct (map ident (fst (materializeResult q op k (m, c)))) \<and>
         a \<in> set (fst (materializeResult q op k (m, c)))"
proof -
  have users: "\<forall>tu\<in>set (fst (classifyUses m (OpResult (ident op) k))). user tu \<noteq> ident a"
  proof
    fix tu assume "tu \<in> set (fst (classifyUses m (OpResult (ident op) k)))"
    then obtain u where u: "u \<in> set m" "user tu = ident u" "opname u \<noteq> TimepointAwaitOp"
      using tiedUses_users by blast
    show "user tu \<noteq> ident a"
    proof
      assume "user tu = ident a"
      then have "ident u = ident a" using u by simp
      then have "u = a"
        using d u(1) a by (meson distinct_map inj_onD)
      then show False using u(3) aw by simp
    qed
  qed
  show ?thesis
    using d a fold_materialize_keeps [OF a users] fold_materialize_distinct [OF d]
    by (simp add: materializeResult_def Let_def split: ty.splits)
qed

lemma fold_materializeResult_keeps_await:
  assumes aw: "opname a = TimepointAwaitOp"
  shows "distinct (map ident (fst st)) \<Longrightarrow> a \<in> set (fst st) \<Longrightarrow>
         a \<in> set (fst (fold (materializeResult q op) ks st))"
proof (induction ks arbitrary: st)
  case Nil
  then show ?case by simp
next
  case (Cons k ks)
  obtain m c where st: "st = (m, c)" by (cases st)
  have "distinct (map ident (fst (materializeResult q op k st))) \<and>
        a \<in> set (fst (materializeResult q op k st))"
    using materializeResult_keeps_await [OF _ _ aw, of m q op k c] Cons.prems st by simp
  then show ?case using Cons.IH by simp
qed







lemma affinity_setOperand [simp]: "affinity (setOperand i v op) = affinity op"
  by (simp add: setOperand_def)

lemma parentBlock_setOperand [simp]: "parentBlock (setOperand i v op) = parentBlock op"
  by (simp add: setOperand_def)




lemma ident_rewireSlots [simp]: "ident (rewireSlots n slots u) = ident u"
  by (induction slots arbitrary: n u) simp_all




text \<open>
  Claim C10. A use owned by a \<^verbatim>\<open>timepoint.await\<close> leaves the classification as
  it was: the tied uses and the count of untied uses are those of the IR with every await
  removed. And the await keeps its operands: every await of the IR is in the rewritten
  IR unchanged, so none of its uses is rewritten to a clone.
\<close>

theorem C10_await_uses_skipped:
  assumes "distinct (map ident m)" and "awaitOp \<in> set m"
      and "opname awaitOp = TimepointAwaitOp"
  shows "classifyUse result (awaitOp, i) acc = acc \<and>
         classifyUses m result =
           classifyUses (filter (\<lambda>op. opname op \<noteq> TimepointAwaitOp) m) result \<and>
         (\<forall>m'. MaterializeCOW q m op = Some m' \<longrightarrow> awaitOp \<in> set m')"
proof -
  have 1: "classifyUse result (awaitOp, i) acc = acc"
    using assms(3) by (simp add: classifyUse_def split: prod.splits)
  have 3: "\<forall>m'. MaterializeCOW q m op = Some m' \<longrightarrow> awaitOp \<in> set m'"
    using fold_materializeResult_keeps_await [OF assms(3), of "(m, False)" q op
        "[0..<length (resultTypes op)]"] assms(1,2)
    by (auto simp: MaterializeCOW_def split: prod.splits if_splits)
  show ?thesis
    using 1 3 classifyUses_without_awaits [of m result] by simp
qed








text \<open>
  What \<open>cowSpec\<close> says, operand by operand: a rewired consumer keeps every field but
  its operands; an operand outside the tied slots keeps its value; with the tied slots
  listed as they are rewired, from the last to the first, the \<open>t\<close>-th of them holds
  the result of the \<open>t\<close>-th clone in front of the consumer, a clone of the value with
  the consumer's affinity or else the producer's.
\<close>

lemma concat_setNthConcat: "concat (setNthConcat gs i v) = (concat gs)[i := v]"
  by (induction gs arbitrary: i) (simp_all add: list_update_append)

lemma getOperands_setOperand: "getOperands (setOperand i v op) = (getOperands op)[i := v]"
  by (simp add: getOperands_def setOperand_def concat_setNthConcat)

lemma rewireSlots_fields:
  "opname (rewireSlots n slots u) = opname u \<and>
   resultTypes (rewireSlots n slots u) = resultTypes u \<and>
   tiedOperands (rewireSlots n slots u) = tiedOperands u \<and>
   affinity (rewireSlots n slots u) = affinity u \<and>
   parentBlock (rewireSlots n slots u) = parentBlock u \<and>
   length (getOperands (rewireSlots n slots u)) = length (getOperands u)"
  by (induction slots arbitrary: n u) (simp_all add: setOperand_def getOperands_setOperand
      getOperands_def concat_setNthConcat)

lemma rewireSlots_untouched:
  "j \<notin> set slots \<Longrightarrow> getOperands (rewireSlots n slots u) ! j = getOperands u ! j"
  by (induction slots arbitrary: n u) (simp_all add: getOperands_setOperand)

lemma rewireSlots_slot:
  "distinct slots \<Longrightarrow> t < length slots \<Longrightarrow> slots ! t < length (getOperands u) \<Longrightarrow>
   getOperands (rewireSlots n slots u) ! (slots ! t) = OpResult (n + t) 0"
proof (induction slots arbitrary: n u t)
  case Nil
  then show ?case by simp
next
  case (Cons i slots)
  show ?case
  proof (cases t)
    case 0
    have "i \<notin> set slots" using Cons.prems(1) by simp
    then have "getOperands (rewireSlots (Suc n) slots (setOperand i (OpResult n 0) u)) ! i =
               getOperands (setOperand i (OpResult n 0) u) ! i"
      by (rule rewireSlots_untouched)
    then show ?thesis
      using 0 Cons.prems(3) by (simp add: getOperands_setOperand)
  next
    case (Suc t')
    have "getOperands (rewireSlots (Suc n) slots (setOperand i (OpResult n 0) u)) ! (slots ! t') =
          OpResult (Suc n + t') 0"
      using Cons.prems Suc by (intro Cons.IH) (simp_all add: getOperands_setOperand)
    then show ?thesis using Suc by simp
  qed
qed

lemma clonesFor_nth:
  "t < length slots \<Longrightarrow>
   clonesFor q aff r u n slots ! t =
   mkClone (n + t) r (q r) (q r) (case affinity u of Some a \<Rightarrow> Some a | None \<Rightarrow> aff)
     (parentBlock u)"
proof (induction slots arbitrary: n t)
  case Nil
  then show ?case by simp
next
  case (Cons i slots)
  then show ?case by (cases t) simp_all
qed

lemma length_clonesFor [simp]: "length (clonesFor q aff r u n slots) = length slots"
  by (induction slots arbitrary: n) simp_all

lemma tiedSlots_sound:
  "distinct (tiedSlots r u) \<and>
   (\<forall>i. i \<in> set (tiedSlots r u) \<longleftrightarrow>
        opname u \<noteq> TimepointAwaitOp \<and> i < length (getOperands u) \<and>
        getOperands u ! i = r \<and> isOperandTied u i)"
  by (auto simp: tiedSlots_def)




theorem C10_await_uses_skipped_witness:
  "distinct (map ident ex1_ir) \<and> ex1_await \<in> set ex1_ir \<and>
   opname ex1_await = TimepointAwaitOp \<and>
   getOperands ex1_await ! 0 = OpResult 1 0 \<and> isOperandTied ex1_await 0 \<and>
   classifyUses ex1_ir (OpResult 1 0) =
     ([TiedUse 4 1 (OpResult 1 0), TiedUse 4 0 (OpResult 1 0), TiedUse 3 0 (OpResult 1 0)],
      2) \<and>
   MaterializeCOW ex1_size ex1_ir ex1_producer = Some ex1_after \<and>
   ex1_await \<in> set ex1_after"
proof -
  have d: "distinct (map ident ex1_ir)" by code_simp
  have mem: "ex1_await \<in> set ex1_ir" by (simp add: ex1_ir_def)
  have aw: "opname ex1_await = TimepointAwaitOp" by code_simp
  have ev: "MaterializeCOW ex1_size ex1_ir ex1_producer = Some ex1_after" by code_simp
  have rest: "getOperands ex1_await ! 0 = OpResult 1 0" "isOperandTied ex1_await 0"
    "classifyUses ex1_ir (OpResult 1 0) =
       ([TiedUse 4 1 (OpResult 1 0), TiedUse 4 0 (OpResult 1 0), TiedUse 3 0 (OpResult 1 0)],
        2)"
    by code_simp+
  have "ex1_await \<in> set ex1_after"
    using C10_await_uses_skipped [OF d mem aw, of "OpResult 1 0" 0 "([], 0)" ex1_size
        ex1_producer] ev by simp
  then show ?thesis
    using d mem aw ev rest by (simp only: simp_thms)
qed

subsection \<open>Grouping awaits by timepoint\<close>


lemma mapOperands_id: "mapOperands (\<lambda>v. v) op = op"
  by (simp add: mapOperands_def)





lemma ident_mergedAwait [simp]: "ident (mergedAwait gt n op covered) = n"
  by (simp add: mergedAwait_def mkAwait_def Let_def)






















end
